theory Spec2Isabelle
  imports Complex_Main
begin

section \<open>The Contur full likelihood (src/contur_likelihood.py)\<close>

text \<open>
  The module defines one class, \<open>ConturLikelihood\<close>, a statistical model over \<open>N\<close> bins.
  Floating-point numbers are idealised as reals: rounding, infinities and NaN are outside
  this development, and so is what numpy returns for the square root of a negative
  number or the logarithm of a number that is not positive. Everything that raises in Python is a value of the sum type
  \<open>error + 'a\<close>, with \<open>Inl\<close> carrying the exception.
\<close>

subsection \<open>Exceptions\<close>

text \<open>
  \<open>NameError\<close> carries the name that could not be resolved. \<open>ValueError\<close> is what numpy
  raises when two shapes cannot be broadcast together or a reduction has no elements;
  \<open>IndexError\<close> is an index out of range or a boolean mask of the wrong length.
\<close>

datatype error = NameError string | ValueError | IndexError

definition bind_err :: "error + 'a \<Rightarrow> ('a \<Rightarrow> error + 'b) \<Rightarrow> error + 'b" where
  "bind_err r f = (case r of Inl e \<Rightarrow> Inl e | Inr v \<Rightarrow> f v)"

subsection \<open>numpy arrays\<close>

text \<open>
  A one-dimensional array is a list of reals. A covariance argument may have any number
  of dimensions (the constructor inspects \<open>ndim\<close> and \<open>shape\<close>), so it keeps its shape
  beside its entries, which are stored row by row.
\<close>

type_synonym vec = "real list"

record ndarray =
  shape :: "nat list"
  entries :: "real list"

definition ndim :: "ndarray \<Rightarrow> nat" where
  "ndim a = length (shape a)"

text \<open>
  \<open>a.diagonal()\<close> of a two-dimensional array with \<open>r\<close> rows and \<open>c\<close> columns. numpy
  refuses arrays of fewer than two dimensions; a constructed model only holds
  two-dimensional ones, so every other shape is mapped to the error here.
\<close>

definition diagonal :: "ndarray \<Rightarrow> error + vec" where
  "diagonal a =
     (case shape a of
        [r, c] \<Rightarrow> Inr (map (\<lambda>i. entries a ! (i * c + i)) [0..<min r c])
      | _ \<Rightarrow> Inl ValueError)"

text \<open>
  An elementwise binary operation on two one-dimensional arrays, with numpy's
  broadcasting: equal lengths combine pointwise, a length-one operand is stretched, and
  any other pair of lengths raises \<open>ValueError\<close>.
\<close>

definition broadcast :: "(real \<Rightarrow> real \<Rightarrow> real) \<Rightarrow> vec \<Rightarrow> vec \<Rightarrow> error + vec" where
  "broadcast f xs ys =
     (if length xs = length ys then Inr (map2 f xs ys)
      else if length xs = 1 then Inr (map (f (hd xs)) ys)
      else if length ys = 1 then Inr (map (\<lambda>x. f x (hd ys)) xs)
      else Inl ValueError)"

text \<open>
  \<open>np.array_split(a, 3)\<close>: three consecutive sections; the first \<open>len(a) mod 3\<close> of them
  hold one element more than \<open>len(a) div 3\<close>.
\<close>

definition array_split3 :: "vec \<Rightarrow> vec \<times> vec \<times> vec" where
  "array_split3 xs =
     (let each_section = length xs div 3;
          extras = length xs mod 3;
          n1 = each_section + (if 0 < extras then 1 else 0);
          n2 = each_section + (if 1 < extras then 1 else 0)
      in (take n1 xs, take n2 (drop n1 xs), drop (n1 + n2) xs))"

text \<open>\<open>a[mask]\<close> with a boolean mask: the mask must have the length of \<open>a\<close>.\<close>

definition mask_select :: "vec \<Rightarrow> bool list \<Rightarrow> error + vec" where
  "mask_select xs flags =
     (if length flags = length xs then Inr (map fst (filter snd (zip xs flags)))
      else Inl IndexError)"

text \<open>\<open>np.min\<close> of a one-dimensional array; an empty array has no minimum.\<close>

fun np_min :: "vec \<Rightarrow> error + real" where
  "np_min [] = Inl ValueError"
| "np_min (x # xs) = Inr (fold min xs x)"

subsection \<open>The distributions of the statistics library\<close>

text \<open>
  The classes \<open>MainModel\<close> and \<open>ConstraintModel\<close> are imported from the library
  \<open>spey.backends.distributions\<close>; the module only constructs and calls them. A normal
  prior is described by its mean vector, its scale vector and the first index of the
  parameter slice it is evaluated on (\<open>domain = slice(1, None)\<close> is \<open>1\<close>).
\<close>

record normal_pdf =
  loc :: vec
  scale :: vec
  domain_start :: nat

type_synonym ConstraintModel = "normal_pdf list"

subsection \<open>The model\<close>

record ConturLikelihood =
  signal_yields :: vec
  background_yields :: vec
  data :: vec
  signal_covariance :: ndarray
  background_covariance :: ndarray
  data_covariance :: ndarray
  nbins :: nat
  constraint_model :: ConstraintModel

text \<open>
  The constructor. The name \<open>InvalidInput\<close> that its three \<open>raise\<close> statements mention
  is neither defined nor imported by the module (its imports are \<open>NonlinearConstraint\<close>,
  \<open>numpy\<close>, \<open>BackendBase\<close>, \<open>ExpectationType\<close>, \<open>ModelConfig\<close>, \<open>ConstraintModel\<close>,
  \<open>MainModel\<close>, \<open>jacobian\<close> and \<open>grad\<close>), so evaluating \<open>raise InvalidInput(...)\<close>
  raises \<open>NameError\<close> for that name.

  The covariance matrices are inspected in the order data, signal, background.
\<close>

fun check_covariances :: "ndarray list \<Rightarrow> error + unit" where
  "check_covariances [] = Inr ()"
| "check_covariances (cov # covs) =
     (if ndim cov \<noteq> 2 then Inl (NameError ''InvalidInput'')
      else if shape cov ! 0 \<noteq> shape cov ! 1 then Inl (NameError ''InvalidInput'')
      else check_covariances covs)"

definition init ::
  "vec \<Rightarrow> vec \<Rightarrow> vec \<Rightarrow> ndarray \<Rightarrow> ndarray \<Rightarrow> ndarray \<Rightarrow> error + ConturLikelihood" where
  "init s b d s_cov b_cov d_cov =
     (if length (remdups [length s, length b, length d]) \<noteq> 1
      then Inl (NameError ''InvalidInput'')
      else bind_err (check_covariances [d_cov, s_cov, b_cov]) (\<lambda>_.
        if length d \<noteq> shape d_cov ! 0 then Inl (NameError ''InvalidInput'')
        else Inr \<lparr> signal_yields = s, background_yields = b, data = d,
                   signal_covariance = s_cov, background_covariance = b_cov,
                   data_covariance = d_cov, nbins = length d,
                   constraint_model =
                     [\<lparr> loc = replicate (length d) 0, scale = replicate (length d) 1,
                        domain_start = 1 \<rparr>] \<rparr>))"

text \<open>
  The mean of the main model. \<open>pars[0]\<close> raises on an empty parameter vector; the
  remaining parameters are split into three sections, each multiplied by the square
  roots of a covariance diagonal and added to the Poisson counts, left to right.
\<close>

definition lam :: "ConturLikelihood \<Rightarrow> vec \<Rightarrow> error + vec" where
  "lam m pars =
     (case pars of
        [] \<Rightarrow> Inl IndexError
      | p0 # rest \<Rightarrow>
          bind_err (broadcast (+) (map (\<lambda>s. p0 * s) (signal_yields m)) (background_yields m))
            (\<lambda>poisson_counts.
          case array_split3 rest of (signal_pars, background_pars, data_pars) \<Rightarrow>
          bind_err (diagonal (signal_covariance m)) (\<lambda>sd.
          bind_err (diagonal (background_covariance m)) (\<lambda>bd.
          bind_err (diagonal (data_covariance m)) (\<lambda>dd.
          bind_err (broadcast (*) signal_pars (map sqrt sd)) (\<lambda>t1.
          bind_err (broadcast (+) poisson_counts t1) (\<lambda>a1.
          bind_err (broadcast (*) background_pars (map sqrt bd)) (\<lambda>t2.
          bind_err (broadcast (+) a1 t2) (\<lambda>a2.
          bind_err (broadcast (*) data_pars (map sqrt dd)) (\<lambda>t3.
          broadcast (+) a2 t3))))))))))"

text \<open>
  The constraint handed to the optimizer. Its body reads the free name
  \<open>absolute_uncertainties\<close>, which the module binds nowhere, after it has evaluated
  \<open>pars[1:]\<close>; the lookup raises \<open>NameError\<close> before any arithmetic is done.
\<close>

definition absolute_uncertainties :: "error + vec" where
  "absolute_uncertainties = Inl (NameError ''absolute_uncertainties'')"

definition constraint :: "ConturLikelihood \<Rightarrow> vec \<Rightarrow> error + vec" where
  "constraint m pars =
     bind_err absolute_uncertainties (\<lambda>unc.
     bind_err (broadcast (*) (drop 1 pars) unc) (\<lambda>t.
     broadcast (*) (background_yields m) (map (\<lambda>x. 1 + x) t)))"

text \<open>
  \<open>NonlinearConstraint(constraint, 0.0, np.inf, jac=jac_constr)\<close>: the lower bound and
  the upper bound, \<open>None\<close> standing for \<open>np.inf\<close>. The Jacobian is produced by the
  automatic-differentiation library and is not represented.
\<close>

definition constraints_bounds :: "real \<times> real option" where
  "constraints_bounds = (0, None)"

definition is_alive :: "ConturLikelihood \<Rightarrow> bool" where
  "is_alive m = list_ex (\<lambda>s. 0 < s) (signal_yields m)"

subsection \<open>Configuration\<close>

text \<open>
  \<open>ModelConfig(poi_index, minimum_poi, suggested_init, suggested_bounds)\<close>; a bound
  \<open>None\<close> is an open end.
\<close>

record ModelConfig =
  poi_index :: nat
  minimum_poi :: real
  suggested_init :: "real list"
  suggested_bounds :: "(real option \<times> real option) list"

definition config :: "ConturLikelihood \<Rightarrow> bool \<Rightarrow> real \<Rightarrow> error + ModelConfig" where
  "config m allow_negative_signal poi_upper_bound =
     (let positive = map (\<lambda>s. 0 < s) (signal_yields m) in
      bind_err (mask_select (background_yields m) positive) (\<lambda>bs.
      bind_err (mask_select (signal_yields m) positive) (\<lambda>ss.
      bind_err (broadcast (/) bs ss) (\<lambda>ratios.
      bind_err (np_min ratios) (\<lambda>lowest.
        let min_poi = - lowest in
        Inr \<lparr> poi_index = 0,
              minimum_poi = min_poi,
              suggested_init = replicate (length (data m) + 1) 1,
              suggested_bounds =
                [(Some (if allow_negative_signal then min_poi else 0), Some poi_upper_bound)]
                @ replicate (length (data m)) (None, None) \<rparr>)))))"

subsection \<open>Log-probabilities of the two sub-models\<close>

text \<open>
  Modelled from the spec: \<open>MainModel.log_prob(pars, observations)\<close> of the statistics
  library, which is not part of the module, is the sum of the per-bin Poisson
  log-probabilities of the observations at mean \<open>lam(pars)\<close>, that is of
  \<open>n * log(mean) - mean - gammaln(n + 1)\<close> with the arrays combined elementwise. The
  function \<open>gammaln\<close> (the logarithm of the Gamma function) is a parameter.
\<close>

definition poisson_log_prob :: "(real \<Rightarrow> real) \<Rightarrow> vec \<Rightarrow> vec \<Rightarrow> error + vec" where
  "poisson_log_prob gammaln mean obs =
     bind_err (broadcast (*) obs (map ln mean)) (\<lambda>a.
     bind_err (broadcast (-) a mean) (\<lambda>b.
     broadcast (-) b (map (\<lambda>n. gammaln (n + 1)) obs)))"

definition main_log_prob ::
  "(real \<Rightarrow> real) \<Rightarrow> ConturLikelihood \<Rightarrow> vec \<Rightarrow> vec \<Rightarrow> error + real" where
  "main_log_prob gammaln m pars obs =
     bind_err (lam m pars) (\<lambda>mean.
     bind_err (poisson_log_prob gammaln mean obs) (\<lambda>terms. Inr (sum_list terms)))"

text \<open>
  Modelled from the spec: \<open>ConstraintModel.log_prob(pars)\<close> of the statistics library is
  the sum of the normal log-densities of the priors it was constructed with, each
  evaluated elementwise on its slice of \<open>pars\<close>.
\<close>

definition normal_log_prob :: "normal_pdf \<Rightarrow> vec \<Rightarrow> error + vec" where
  "normal_log_prob pdf v =
     bind_err (broadcast (-) v (loc pdf)) (\<lambda>centred.
     bind_err (broadcast (/) centred (scale pdf)) (\<lambda>pulls.
     broadcast (-) (map (\<lambda>s. - ln s) (scale pdf))
       (map (\<lambda>z. (ln (2 * pi) + z * z) / 2) pulls)))"

fun constraint_log_prob :: "ConstraintModel \<Rightarrow> vec \<Rightarrow> error + real" where
  "constraint_log_prob [] pars = Inr 0"
| "constraint_log_prob (pdf # pdfs) pars =
     bind_err (normal_log_prob pdf (drop (domain_start pdf) pars)) (\<lambda>terms.
     bind_err (constraint_log_prob pdfs pars) (\<lambda>others. Inr (sum_list terms + others)))"

subsection \<open>Objective and log-likelihood\<close>

datatype ExpectationType = observed | aposteriori | apriori

text \<open>
  Both builders start with the same two assignments: \<open>current_data\<close> is the background
  yields in the apriori mode and the stored data otherwise, and it stands in for a
  \<open>data\<close> argument that is \<open>None\<close>.
\<close>

definition selected_data :: "ConturLikelihood \<Rightarrow> ExpectationType \<Rightarrow> vec option \<Rightarrow> vec" where
  "selected_data m expected dat =
     (let current_data = (if expected = apriori then background_yields m else data m)
      in case dat of None \<Rightarrow> current_data | Some d \<Rightarrow> d)"

definition negative_loglikelihood ::
  "(real \<Rightarrow> real) \<Rightarrow> ConturLikelihood \<Rightarrow> vec \<Rightarrow> vec \<Rightarrow> error + real" where
  "negative_loglikelihood gammaln m dat pars =
     bind_err (main_log_prob gammaln m pars (take (length (data m)) dat)) (\<lambda>a.
     bind_err (constraint_log_prob (constraint_model m) pars) (\<lambda>c.
     Inr (- a - c)))"

text \<open>
  The value of the objective. With \<open>do_grad\<close> the Python function returns this value
  paired with its gradient, which the automatic-differentiation library derives from the
  same function; the gradient is not represented.
\<close>

definition get_objective_function ::
  "(real \<Rightarrow> real) \<Rightarrow> ConturLikelihood \<Rightarrow> ExpectationType \<Rightarrow> vec option \<Rightarrow> vec \<Rightarrow> error + real" where
  "get_objective_function gammaln m expected dat =
     negative_loglikelihood gammaln m (selected_data m expected dat)"

definition get_logpdf_func ::
  "(real \<Rightarrow> real) \<Rightarrow> ConturLikelihood \<Rightarrow> ExpectationType \<Rightarrow> vec option \<Rightarrow> vec \<Rightarrow> error + real" where
  "get_logpdf_func gammaln m expected dat =
     (let d = selected_data m expected dat in
      (\<lambda>pars.
         bind_err (main_log_prob gammaln m pars (take (length (data m)) d)) (\<lambda>a.
         bind_err (constraint_log_prob (constraint_model m) pars) (\<lambda>c.
         Inr (a + c)))))"

subsection \<open>Sampling and expected data\<close>

text \<open>
  Random draws are read from a source that is a parameter: \<open>poisson_rvs mean i j\<close> is
  the Poisson draw of row \<open>i\<close>, column \<open>j\<close>, and \<open>normal_rvs mean sd i j\<close> the normal one.

  Modelled from the spec: \<open>MainModel.sample(pars, n)\<close> and \<open>ConstraintModel.sample(pars, n)\<close>
  of the statistics library draw \<open>n\<close> rows with one entry per component of the
  distribution's mean vector; \<open>MainModel.expected_data(pars)\<close> is \<open>lam(pars)\<close> and
  \<open>ConstraintModel.expected_data()\<close> is the mean of the priors.
\<close>

record rng =
  poisson_rvs :: "real \<Rightarrow> nat \<Rightarrow> nat \<Rightarrow> real"
  normal_rvs :: "real \<Rightarrow> real \<Rightarrow> nat \<Rightarrow> nat \<Rightarrow> real"

definition main_sample :: "rng \<Rightarrow> ConturLikelihood \<Rightarrow> vec \<Rightarrow> nat \<Rightarrow> error + vec list" where
  "main_sample g m pars sample_size =
     bind_err (lam m pars) (\<lambda>mean.
       Inr (map (\<lambda>i. map (\<lambda>j. poisson_rvs g (mean ! j) i j) [0..<length mean])
              [0..<sample_size]))"

definition normal_sample :: "rng \<Rightarrow> normal_pdf \<Rightarrow> nat \<Rightarrow> vec" where
  "normal_sample g pdf i =
     map (\<lambda>j. normal_rvs g (loc pdf ! j) (scale pdf ! j) i j) [0..<length (loc pdf)]"

definition constraint_sample :: "rng \<Rightarrow> ConstraintModel \<Rightarrow> vec \<Rightarrow> nat \<Rightarrow> vec list" where
  "constraint_sample g cm pars sample_size =
     map (\<lambda>i. concat (map (\<lambda>pdf. normal_sample g pdf i) cm)) [0..<sample_size]"

definition main_expected_data :: "ConturLikelihood \<Rightarrow> vec \<Rightarrow> error + vec" where
  "main_expected_data m pars = lam m pars"

definition constraint_expected_data :: "ConstraintModel \<Rightarrow> vec" where
  "constraint_expected_data cm = concat (map loc cm)"

text \<open>\<open>np.hstack\<close> of two two-dimensional arrays: the rows are joined pairwise.\<close>

definition hstack :: "vec list \<Rightarrow> vec list \<Rightarrow> error + vec list" where
  "hstack xs ys = (if length xs = length ys then Inr (map2 (@) xs ys) else Inl ValueError)"

definition sampler ::
  "rng \<Rightarrow> ConturLikelihood \<Rightarrow> vec \<Rightarrow> nat \<Rightarrow> bool \<Rightarrow> error + vec list" where
  "sampler g m pars sample_size include_auxiliary =
     bind_err (main_sample g m pars sample_size) (\<lambda>sample.
       if include_auxiliary
       then hstack sample (constraint_sample g (constraint_model m) (drop 1 pars) sample_size)
       else Inr sample)"

definition expected_data :: "ConturLikelihood \<Rightarrow> vec \<Rightarrow> bool \<Rightarrow> error + vec" where
  "expected_data m pars include_auxiliary =
     bind_err (main_expected_data m pars) (\<lambda>d.
       if include_auxiliary
       then Inr (d @ constraint_expected_data (constraint_model m))
       else Inr d)"

subsection \<open>Concrete inputs\<close>

text \<open>
  The identity matrix of size \<open>n\<close> as a covariance argument, and a vector that stands
  where a matrix is expected.
\<close>

definition eye :: "nat \<Rightarrow> ndarray" where
  "eye n = \<lparr> shape = [n, n],
             entries = concat (map (\<lambda>i. map (\<lambda>j. if i = j then 1 else 0) [0..<n]) [0..<n]) \<rparr>"

text \<open>A model of one bin: signal 1, background 2, three observed events, unit variances.\<close>

definition one_bin_model :: ConturLikelihood where
  "one_bin_model =
     \<lparr> signal_yields = [1], background_yields = [2], data = [3],
       signal_covariance = eye 1, background_covariance = eye 1, data_covariance = eye 1,
       nbins = 1,
       constraint_model = [\<lparr> loc = [0], scale = [1], domain_start = 1 \<rparr>] \<rparr>"

text \<open>
  The two-bin scenario of the specification: signal \<open>[5, 10]\<close>, background \<open>[20, 30]\<close>,
  data \<open>[25, 40]\<close>, identity covariances.
\<close>

definition two_bin_model :: ConturLikelihood where
  "two_bin_model =
     \<lparr> signal_yields = [5, 10], background_yields = [20, 30], data = [25, 40],
       signal_covariance = eye 2, background_covariance = eye 2, data_covariance = eye 2,
       nbins = 2,
       constraint_model = [\<lparr> loc = [0, 0], scale = [1, 1], domain_start = 1 \<rparr>] \<rparr>"

text \<open>
  The same yields with a signal covariance of three rows and columns, which the
  constructor accepts because only the data covariance is compared with the bin count.
\<close>

definition mismatched_model :: ConturLikelihood where
  "mismatched_model = two_bin_model \<lparr> signal_covariance := eye 3 \<rparr>"

text \<open>
  The logarithm of the Gamma function at the positive integers, where
  \<open>\<Gamma>(n) = (n - 1)!\<close>; it instantiates the \<open>gammaln\<close> parameter in concrete examples
  with count data.
\<close>

definition gammaln_counts :: "real \<Rightarrow> real" where
  "gammaln_counts x = ln (fact (nat \<lfloor>x\<rfloor> - 1))"

section \<open>Properties\<close>

subsection \<open>Evaluation of the concrete inputs\<close>

lemma bind_err_Inr: "bind_err (Inr v) f = f v"
  by (simp add: bind_err_def)

lemma bind_err_Inl: "bind_err (Inl e) f = Inl e"
  by (simp add: bind_err_def)

lemma eye_1: "eye (Suc 0) = \<lparr> shape = [1, 1], entries = [1] \<rparr>"
  by (simp add: eye_def)

lemma eye_2: "eye 2 = \<lparr> shape = [2, 2], entries = [1, 0, 0, 1] \<rparr>"
proof -
  have "[0..<2] = [0, Suc 0]" by (simp add: upt_conv_Cons)
  then show ?thesis by (simp add: eye_def)
qed

lemma eye_3: "eye 3 = \<lparr> shape = [3, 3], entries = [1, 0, 0, 0, 1, 0, 0, 0, 1] \<rparr>"
proof -
  have "[0..<3] = [0, Suc 0, 2]" by (simp add: upt_conv_Cons)
  then show ?thesis by (simp add: eye_def)
qed

lemma init_one_bin: "init [1] [2] [3] (eye 1) (eye 1) (eye 1) = Inr one_bin_model"
  by (simp add: init_def bind_err_def ndim_def eye_1 one_bin_model_def)

lemma init_two_bin:
  "init [5, 10] [20, 30] [25, 40] (eye 2) (eye 2) (eye 2) = Inr two_bin_model"
  by (simp add: init_def bind_err_def ndim_def eye_2 two_bin_model_def)

lemma init_mismatched:
  "init [5, 10] [20, 30] [25, 40] (eye 3) (eye 2) (eye 2) = Inr mismatched_model"
  by (simp add: init_def bind_err_def ndim_def eye_2 eye_3 two_bin_model_def
      mismatched_model_def)

lemma lam_one_bin: "lam one_bin_model [1, 0, 0, 0] = Inr [3]"
  by (simp add: lam_def bind_err_def broadcast_def array_split3_def diagonal_def eye_1
      one_bin_model_def)


subsection \<open>The constructor\<close>

lemma remdups_three_lengths:
  "length (remdups [a, b, c :: nat]) = 1 \<longleftrightarrow> a = b \<and> b = c"
  by auto

lemma check_covariances_ok:
  "check_covariances cs = Inr () \<longleftrightarrow>
     list_all (\<lambda>c. ndim c = 2 \<and> shape c ! 0 = shape c ! 1) cs"
  by (induction cs) auto

lemma check_covariances_error:
  "check_covariances cs = Inl e \<Longrightarrow> e = NameError ''InvalidInput''"
  by (induction cs) (auto split: if_splits)

lemma init_error: "init s b d s_cov b_cov d_cov = Inl e \<Longrightarrow> e = NameError ''InvalidInput''"
  by (auto simp: init_def bind_err_def split: if_splits sum.splits
      dest: check_covariances_error)

lemma init_succeeds_iff:
  "(\<exists>m. init s b d s_cov b_cov d_cov = Inr m) \<longleftrightarrow>
     length s = length b \<and> length b = length d \<and>
     list_all (\<lambda>c. ndim c = 2 \<and> shape c ! 0 = shape c ! 1) [d_cov, s_cov, b_cov] \<and>
     length d = shape d_cov ! 0"
proof -
  have "check_covariances [d_cov, s_cov, b_cov] = Inr () \<or>
        (\<exists>e. check_covariances [d_cov, s_cov, b_cov] = Inl e)"
    by (cases "check_covariances [d_cov, s_cov, b_cov]") auto
  then show ?thesis
    unfolding init_def remdups_three_lengths bind_err_def
    using check_covariances_ok [of "[d_cov, s_cov, b_cov]"]
    by (auto split: sum.splits)
qed

lemma init_fields:
  assumes "init s b d s_cov b_cov d_cov = Inr m"
  shows "signal_yields m = s" and "background_yields m = b" and "data m = d"
    and "signal_covariance m = s_cov" and "background_covariance m = b_cov"
    and "data_covariance m = d_cov" and "nbins m = length d"
    and "constraint_model m =
           [\<lparr> loc = replicate (length d) 0, scale = replicate (length d) 1, domain_start = 1 \<rparr>]"
    and "length s = length d" and "length b = length d"
    and "shape d_cov = [length d, length d]"
proof -
  from assms have ok: "length s = length b" "length b = length d"
      "ndim d_cov = 2" "shape d_cov ! 0 = shape d_cov ! 1" "length d = shape d_cov ! 0"
    using init_succeeds_iff [of s b d s_cov b_cov d_cov] by auto
  from assms ok
  have m: "m = \<lparr> signal_yields = s, background_yields = b, data = d,
                 signal_covariance = s_cov, background_covariance = b_cov,
                 data_covariance = d_cov, nbins = length d,
                 constraint_model =
                   [\<lparr> loc = replicate (length d) 0, scale = replicate (length d) 1,
                      domain_start = 1 \<rparr>] \<rparr>"
    by (auto simp: init_def bind_err_def split: if_splits sum.splits)
  show "signal_yields m = s" "background_yields m = b" "data m = d"
    "signal_covariance m = s_cov" "background_covariance m = b_cov"
    "data_covariance m = d_cov" "nbins m = length d"
    "constraint_model m =
       [\<lparr> loc = replicate (length d) 0, scale = replicate (length d) 1, domain_start = 1 \<rparr>]"
    by (simp_all add: m)
  show "length s = length d" "length b = length d" using ok by simp_all
  from ok(3) obtain r c where rc: "shape d_cov = [r, c]"
    by (cases "shape d_cov"; cases "tl (shape d_cov)"; cases "tl (tl (shape d_cov))")
       (auto simp: ndim_def)
  with ok(4,5) show "shape d_cov = [length d, length d]" by simp
qed

text \<open>
  C5. Construction is refused exactly on the inputs the claim lists (lemma
  \<open>init_succeeds_iff\<close>), but every refusal is the \<open>NameError\<close> of the unbound name
  \<open>InvalidInput\<close> (lemma \<open>init_error\<close>), not an invalid-input exception: here the yields
  have lengths 1, 2 and 1.
\<close>

theorem init_mismatched_lengths_raises_NameError:
  "init [1] [2, 3] [3] (eye 1) (eye 1) (eye 1) = Inl (NameError ''InvalidInput'')"
  by (simp add: init_def)

subsection \<open>Configuration\<close>

lemma config_lengths:
  assumes "config m allow_negative_signal poi_upper_bound = Inr cfg"
  shows "length (suggested_init cfg) = length (data m) + 1"
    and "length (suggested_bounds cfg) = length (data m) + 1"
  using assms
  by (auto simp: config_def bind_err_def Let_def split: sum.splits)

lemma np_min_Min:
  assumes "xs \<noteq> []"
  shows "np_min xs = Inr (Min (set xs))"
proof (cases xs)
  case Nil
  with assms show ?thesis by simp
next
  case (Cons x ys)
  then show ?thesis using Min.set_eq_fold [of x ys] by simp
qed

text \<open>
  Selecting two arrays of one length by the same mask and combining the selections
  pointwise is combining the pairs whose mask entry is true.
\<close>

lemma masked_ratio:
  assumes "length bs = length ss"
  shows "map2 f (map fst (filter snd (zip bs (map P ss))))
                (map fst (filter snd (zip ss (map P ss)))) =
         map (\<lambda>(b, s). f b s) (filter (\<lambda>(b, s). P s) (zip bs ss))"
  using assms by (induction bs ss rule: list_induct2) auto

lemma set_masked:
  assumes "length bs = length ss"
  shows "set (map (\<lambda>(b, s). f b s) (filter (\<lambda>(b, s). P s) (zip bs ss))) =
         {f (bs ! i) (ss ! i) | i. i < length ss \<and> P (ss ! i)}"
  using assms by (auto simp: set_zip image_iff)

text \<open>
  C1. For the constructed model of one bin, \<open>config\<close> returns the POI index 0 and the
  POI bounds \<open>(-2, 10)\<close>, but two initial values and two bounds: one per bin beside the
  POI (lemma \<open>config_lengths\<close>), where the \<open>3N + 1 = 4\<close> parameters that \<open>lam\<close> reads
  would need four.
\<close>

theorem config_one_bin_lists_two_parameters:
  "init [1] [2] [3] (eye 1) (eye 1) (eye 1) = Inr one_bin_model \<and>
   config one_bin_model True 10 =
     Inr \<lparr> poi_index = 0, minimum_poi = - 2, suggested_init = [1, 1],
           suggested_bounds = [(Some (- 2), Some 10), (None, None)] \<rparr>"
  using init_one_bin
  by (simp add: config_def bind_err_def mask_select_def broadcast_def one_bin_model_def)

text \<open>
  C7. For a constructed model with at least one strictly positive signal yield,
  \<open>config\<close> returns, and the POI lower bound it reports is minus the least ratio
  \<open>background_yields[i] / signal_yields[i]\<close> over exactly the bins \<open>i\<close> whose signal
  yield is strictly positive, whatever the two arguments of \<open>config\<close> are.
\<close>

theorem poi_lower_bound:
  assumes "init s b d s_cov b_cov d_cov = Inr m"
    and "\<exists>i < length s. 0 < s ! i"
  shows "\<exists>cfg. config m allow_negative_signal poi_upper_bound = Inr cfg \<and>
           minimum_poi cfg = - Min {b ! i / s ! i | i. i < length s \<and> 0 < s ! i}"
proof -
  note f = init_fields [OF assms(1)]
  have len: "length b = length s" using f by simp
  let ?ratios = "map (\<lambda>(b, s). b / s) (filter (\<lambda>(b, s). 0 < s) (zip b s))"
  have set_r: "set ?ratios = {b ! i / s ! i | i. i < length s \<and> 0 < s ! i}"
    by (rule set_masked [OF len])
  with assms(2) have ne: "?ratios \<noteq> []"
    by (metis (mono_tags, lifting) empty_iff empty_set mem_Collect_eq)
  have sel_b: "mask_select b (map (\<lambda>s. 0 < s) s) =
      Inr (map fst (filter snd (zip b (map (\<lambda>s. 0 < s) s))))"
    by (simp add: mask_select_def len)
  have sel_s: "mask_select s (map (\<lambda>s. 0 < s) s) =
      Inr (map fst (filter snd (zip s (map (\<lambda>s. 0 < s) s))))"
    by (simp add: mask_select_def)
  have same: "length (map fst (filter snd (zip b (map (\<lambda>s. 0 < s) s)))) =
              length (map fst (filter snd (zip s (map (\<lambda>s. 0 < s) s))))"
    using len by (induction b s rule: list_induct2) auto
  have quot: "broadcast (/) (map fst (filter snd (zip b (map (\<lambda>s. 0 < s) s))))
                (map fst (filter snd (zip s (map (\<lambda>s. 0 < s) s)))) = Inr ?ratios"
    unfolding broadcast_def using same masked_ratio [OF len, of "(/)" "\<lambda>s. 0 < s"]
    by simp
  have "np_min ?ratios = Inr (Min (set ?ratios))"
    by (rule np_min_Min [OF ne])
  then show ?thesis
    unfolding config_def f(1,2,3) Let_def sel_b sel_s bind_err_Inr quot set_r
    by (simp add: bind_err_Inr)
qed

text \<open>
  In the two-bin scenario the ratios are \<open>20 / 5 = 4\<close> and \<open>30 / 10 = 3\<close>, so the bound
  is \<open>-3\<close>.
\<close>

theorem poi_lower_bound_witness:
  "init [5, 10] [20, 30] [25, 40] (eye 2) (eye 2) (eye 2) = Inr two_bin_model \<and>
   (\<exists>cfg. config two_bin_model True 10 = Inr cfg \<and> minimum_poi cfg = - 3)"
proof -
  have ex: "\<exists>i < length [5, 10 :: real]. 0 < [5, 10 :: real] ! i"
    by (rule exI [of _ 0]) simp
  have "{[20, 30 :: real] ! i / [5, 10 :: real] ! i | i. i < length [5, 10 :: real] \<and>
          0 < [5, 10 :: real] ! i} = {4, 3}"
    by (auto simp: less_Suc_eq nth_Cons')
  then show ?thesis
    using poi_lower_bound [OF init_two_bin ex, of True 10] init_two_bin by simp
qed

subsection \<open>The mean of the main model\<close>

lemma square_shape:
  assumes "ndim c = 2" and "shape c ! 0 = shape c ! 1" and "shape c ! 0 = n"
  shows "shape c = [n, n]"
proof -
  from assms(1) obtain r k where "shape c = [r, k]"
    by (cases "shape c"; cases "tl (shape c)"; cases "tl (tl (shape c))")
       (auto simp: ndim_def)
  with assms(2,3) show ?thesis by simp
qed

lemma diagonal_square:
  "shape c = [n, n] \<Longrightarrow> diagonal c = Inr (map (\<lambda>i. entries c ! (i * n + i)) [0..<n])"
  by (simp add: diagonal_def)

lemma broadcast_same_length:
  "length xs = length ys \<Longrightarrow> broadcast f xs ys = Inr (map2 f xs ys)"
  by (simp add: broadcast_def)

lemma array_split3_equal:
  "length xs = 3 * n \<Longrightarrow>
   array_split3 xs = (take n xs, take n (drop n xs), drop (2 * n) xs)"
  by (simp add: array_split3_def Let_def mult_2)

text \<open>
  The value of \<open>lam\<close> on a constructed model whose three covariance matrices all have
  as many rows as there are bins, at a vector of \<open>3N + 1\<close> parameters.
\<close>

lemma lam_value:
  assumes "init s b d s_cov b_cov d_cov = Inr m"
    and "shape s_cov ! 0 = length d" and "shape b_cov ! 0 = length d"
    and "length pars = 3 * length d + 1"
  shows "lam m pars =
     Inr (map (\<lambda>i. pars ! 0 * s ! i + b ! i
                 + pars ! (1 + i) * sqrt (entries s_cov ! (i * length d + i))
                 + pars ! (1 + length d + i) * sqrt (entries b_cov ! (i * length d + i))
                 + pars ! (1 + 2 * length d + i) * sqrt (entries d_cov ! (i * length d + i)))
            [0..<length d])"
proof -
  let ?n = "length d"
  note f = init_fields [OF assms(1)]
  from assms(1) have sq: "ndim s_cov = 2" "shape s_cov ! 0 = shape s_cov ! 1"
      "ndim b_cov = 2" "shape b_cov ! 0 = shape b_cov ! 1"
    using init_succeeds_iff [of s b d s_cov b_cov d_cov] by auto
  have sh: "shape s_cov = [?n, ?n]" "shape b_cov = [?n, ?n]"
    using sq assms(2,3) by (auto intro: square_shape)
  from assms(4) obtain p0 rest where pars: "pars = p0 # rest" and rest: "length rest = 3 * ?n"
    by (cases pars) auto
  let ?sd = "map (\<lambda>i. entries s_cov ! (i * ?n + i)) [0..<?n]"
  let ?bd = "map (\<lambda>i. entries b_cov ! (i * ?n + i)) [0..<?n]"
  let ?dd = "map (\<lambda>i. entries d_cov ! (i * ?n + i)) [0..<?n]"
  let ?pc = "map2 (+) (map (\<lambda>x. p0 * x) s) b"
  let ?t1 = "map2 (*) (take ?n rest) (map sqrt ?sd)"
  let ?a1 = "map2 (+) ?pc ?t1"
  let ?t2 = "map2 (*) (take ?n (drop ?n rest)) (map sqrt ?bd)"
  let ?a2 = "map2 (+) ?a1 ?t2"
  let ?t3 = "map2 (*) (drop (2 * ?n) rest) (map sqrt ?dd)"
  have steps:
    "broadcast (+) (map (\<lambda>x. p0 * x) s) b = Inr ?pc"
    "broadcast (*) (take ?n rest) (map sqrt ?sd) = Inr ?t1"
    "broadcast (+) ?pc ?t1 = Inr ?a1"
    "broadcast (*) (take ?n (drop ?n rest)) (map sqrt ?bd) = Inr ?t2"
    "broadcast (+) ?a1 ?t2 = Inr ?a2"
    "broadcast (*) (drop (2 * ?n) rest) (map sqrt ?dd) = Inr ?t3"
    "broadcast (+) ?a2 ?t3 = Inr (map2 (+) ?a2 ?t3)"
    using f(9,10) rest by (simp_all add: broadcast_same_length)
  have lam_eq: "lam m pars = Inr (map2 (+) ?a2 ?t3)"
    unfolding lam_def pars f(1,2,4,5,6) list.case
      array_split3_equal [OF rest] prod.case
      diagonal_square [OF sh(1)] diagonal_square [OF sh(2)] diagonal_square [OF f(11)]
      steps bind_err_Inr ..
  have "map2 (+) ?a2 ?t3 =
      map (\<lambda>i. pars ! 0 * s ! i + b ! i
                 + pars ! (1 + i) * sqrt (entries s_cov ! (i * ?n + i))
                 + pars ! (1 + ?n + i) * sqrt (entries b_cov ! (i * ?n + i))
                 + pars ! (1 + 2 * ?n + i) * sqrt (entries d_cov ! (i * ?n + i)))
            [0..<?n]"
    using f(9,10) rest by (intro nth_equalityI) (simp_all add: pars)
  with lam_eq show ?thesis by simp
qed

lemma lam_length:
  assumes "init s b d s_cov b_cov d_cov = Inr m"
    and "shape s_cov ! 0 = length d" and "shape b_cov ! 0 = length d"
    and "length pars = 3 * length d + 1"
  shows "\<exists>mean. lam m pars = Inr mean \<and> length mean = length d"
  using lam_value [OF assms] by simp

text \<open>
  C6, as stated, fails: the constructor accepts a signal covariance of three rows for
  two bins, and on that model \<open>lam\<close> raises, because a section of two parameters and a
  diagonal of three entries cannot be broadcast together.
\<close>

theorem lam_mismatched_counterexample:
  "init [5, 10] [20, 30] [25, 40] (eye 3) (eye 2) (eye 2) = Inr mismatched_model \<and>
   lam mismatched_model [1, 0, 0, 0, 0, 0, 0] = Inl ValueError"
proof -
  have "[0..<3] = [0, Suc 0, 2]" and "[0..<2] = [0, Suc 0]"
    by (simp_all add: upt_conv_Cons)
  then have "lam mismatched_model [1, 0, 0, 0, 0, 0, 0] = Inl ValueError"
    by (simp add: lam_def bind_err_def broadcast_def array_split3_def diagonal_def
        eye_2 eye_3 mismatched_model_def two_bin_model_def)
  with init_mismatched show ?thesis by simp
qed

text \<open>
  C6, amended. For a constructed model whose signal and background covariance matrices
  have as many rows as there are bins (the constructor compares only the data covariance
  with the bin count), whose variances (the covariance diagonals, of which the square
  root is taken) are not negative, and a vector of \<open>3N + 1\<close> parameters, \<open>lam\<close> returns,
  per bin \<open>i\<close>,
  \<open>pars[0] * signal[i] + background[i]\<close> plus the \<open>i\<close>-th parameter of the signal, the
  background and the data section, each times the square root of the \<open>i\<close>-th diagonal
  entry of the corresponding covariance. When the parameter vector is \<open>mu\<close> followed by
  \<open>3N\<close> zeros the result is exactly \<open>mu * signal + background\<close>.
\<close>

theorem lam_formula:
  assumes "init s b d s_cov b_cov d_cov = Inr m"
    and "shape s_cov ! 0 = length d" and "shape b_cov ! 0 = length d"
    and "length pars = 3 * length d + 1"
    and "list_all (\<lambda>c. list_all (\<lambda>i. 0 \<le> entries c ! (i * length d + i)) [0..<length d])
           [s_cov, b_cov, d_cov]"
  shows "lam m pars =
     Inr (map (\<lambda>i. pars ! 0 * s ! i + b ! i
                 + pars ! (1 + i) * sqrt (entries s_cov ! (i * length d + i))
                 + pars ! (1 + length d + i) * sqrt (entries b_cov ! (i * length d + i))
                 + pars ! (1 + 2 * length d + i) * sqrt (entries d_cov ! (i * length d + i)))
            [0..<length d]) \<and>
     (pars = mu # replicate (3 * length d) 0 \<longrightarrow>
        lam m pars = Inr (map2 (\<lambda>si bi. mu * si + bi) s b))"
proof -
  let ?n = "length d"
  note f = init_fields [OF assms(1)]
  note general = lam_value [OF assms(1-4)]
  have "lam m pars = Inr (map2 (\<lambda>si bi. mu * si + bi) s b)"
    if z: "pars = mu # replicate (3 * ?n) 0"
  proof -
    have "map (\<lambda>i. pars ! 0 * s ! i + b ! i
                 + pars ! (1 + i) * sqrt (entries s_cov ! (i * ?n + i))
                 + pars ! (1 + ?n + i) * sqrt (entries b_cov ! (i * ?n + i))
                 + pars ! (1 + 2 * ?n + i) * sqrt (entries d_cov ! (i * ?n + i)))
            [0..<?n] = map2 (\<lambda>si bi. mu * si + bi) s b"
      using f(9,10) by (intro nth_equalityI) (simp_all add: z)
    with general show ?thesis by simp
  qed
  with general show ?thesis by simp
qed

text \<open>
  In the two-bin scenario at \<open>mu = 1\<close> and zero nuisance parameters the mean is the
  data, \<open>[25, 40]\<close>.
\<close>

theorem lam_formula_witness:
  "init [5, 10] [20, 30] [25, 40] (eye 2) (eye 2) (eye 2) = Inr two_bin_model \<and>
   shape (eye 2) ! 0 = length [25, 40 :: real] \<and>
   length [1, 0, 0, 0, 0, 0, 0 :: real] = 3 * length [25, 40 :: real] + 1 \<and>
   list_all (\<lambda>c. list_all (\<lambda>i. 0 \<le> entries c ! (i * length [25, 40 :: real] + i))
                     [0..<length [25, 40 :: real]])
     [eye 2, eye 2, eye 2] \<and>
   lam two_bin_model [1, 0, 0, 0, 0, 0, 0] = Inr [25, 40]"
proof -
  have sh: "shape (eye 2) ! 0 = length [25, 40 :: real]" by (simp add: eye_2)
  have len: "length [1, 0, 0, 0, 0, 0, 0 :: real] = 3 * length [25, 40 :: real] + 1" by simp
  have "[0..<2] = [0, Suc 0]" by (simp add: upt_conv_Cons)
  then have var: "list_all (\<lambda>c. list_all (\<lambda>i. 0 \<le> entries c ! (i * length [25, 40 :: real] + i))
                     [0..<length [25, 40 :: real]])
     [eye 2, eye 2, eye 2]"
    by (simp add: eye_2)
  have rep: "[1, 0, 0, 0, 0, 0, 0 :: real] = 1 # replicate (3 * length [25, 40 :: real]) 0"
    by (simp add: numeral_eq_Suc)
  from lam_formula [OF init_two_bin sh sh len var, of 1] rep
  have "lam two_bin_model [1, 0, 0, 0, 0, 0, 0] = Inr (map2 (\<lambda>si bi. 1 * si + bi) [5, 10] [20, 30])"
    by blast
  with init_two_bin sh len var show ?thesis by simp
qed

subsection \<open>Sampling and expected data\<close>

lemma constraint_expected_data_init:
  assumes "init s b d s_cov b_cov d_cov = Inr m"
  shows "constraint_expected_data (constraint_model m) = replicate (length d) 0"
  by (simp add: init_fields(8) [OF assms] constraint_expected_data_def)

text \<open>
  On a constructed model whose covariance matrices all have as many rows as there are
  bins, at a vector of \<open>3N + 1\<close> parameters: the expected data with auxiliary entries
  has \<open>N + N\<close> entries, and the sampler returns \<open>k\<close> rows of \<open>N + N\<close> entries with
  auxiliary data and of \<open>N\<close> entries without.
\<close>

lemma expected_data_auxiliary_length:
  assumes "init s b d s_cov b_cov d_cov = Inr m"
    and "shape s_cov ! 0 = length d" and "shape b_cov ! 0 = length d"
    and "length pars = 3 * length d + 1"
  shows "\<exists>v. expected_data m pars True = Inr v \<and> length v = length d + length d"
proof -
  from lam_length [OF assms] obtain mean
    where "lam m pars = Inr mean" and "length mean = length d" by blast
  then show ?thesis
    by (simp add: expected_data_def main_expected_data_def bind_err_Inr
        constraint_expected_data_init [OF assms(1)])
qed

lemma sampler_shape:
  assumes "init s b d s_cov b_cov d_cov = Inr m"
    and "shape s_cov ! 0 = length d" and "shape b_cov ! 0 = length d"
    and "length pars = 3 * length d + 1"
  shows "\<exists>rows. sampler g m pars k True = Inr rows \<and> length rows = k \<and>
           list_all (\<lambda>r. length r = length d + length d) rows"
    and "\<exists>rows. sampler g m pars k False = Inr rows \<and> length rows = k \<and>
           list_all (\<lambda>r. length r = length d) rows"
proof -
  from lam_length [OF assms] obtain mean
    where mean: "lam m pars = Inr mean" "length mean = length d" by blast
  note cm = init_fields(8) [OF assms(1)]
  show "\<exists>rows. sampler g m pars k True = Inr rows \<and> length rows = k \<and>
           list_all (\<lambda>r. length r = length d + length d) rows"
    by (auto simp: sampler_def main_sample_def mean bind_err_Inr cm hstack_def
        constraint_sample_def normal_sample_def list_all_iff set_zip)
  show "\<exists>rows. sampler g m pars k False = Inr rows \<and> length rows = k \<and>
           list_all (\<lambda>r. length r = length d) rows"
    by (simp add: sampler_def main_sample_def mean bind_err_Inr list_all_iff)
qed

text \<open>
  C2. For the constructed model of one bin and a parameter vector of \<open>3N + 1 = 4\<close>
  entries, one sample with auxiliary data is a row of two entries, the Poisson draw and
  one normal draw: the constraint model was built over \<open>N\<close> components, so a row has
  \<open>N + N\<close> entries (lemma \<open>sampler_shape\<close>), not \<open>N + 3N\<close>.
\<close>

theorem sampler_one_bin_row_has_two_entries:
  "init [1] [2] [3] (eye 1) (eye 1) (eye 1) = Inr one_bin_model \<and>
   sampler g one_bin_model [1, 0, 0, 0] 1 True =
     Inr [[poisson_rvs g 3 0 0, normal_rvs g 0 1 0 0]]"
proof -
  have "constraint_model one_bin_model = [\<lparr> loc = [0], scale = [1], domain_start = 1 \<rparr>]"
    by (simp add: one_bin_model_def)
  then have "sampler g one_bin_model [1, 0, 0, 0] 1 True =
      Inr [[poisson_rvs g 3 0 0, normal_rvs g 0 1 0 0]]"
    by (simp add: sampler_def main_sample_def lam_one_bin bind_err_def
        constraint_sample_def normal_sample_def hstack_def)
  with init_one_bin show ?thesis by simp
qed

text \<open>
  C3. For the same model and parameters the expected data with auxiliary entries is
  the mean \<open>[3]\<close> followed by one zero: the constraint model contributes \<open>N\<close> zeros
  (lemmas \<open>constraint_expected_data_init\<close> and \<open>expected_data_auxiliary_length\<close>), not
  \<open>3N\<close>.
\<close>

theorem expected_data_one_bin_has_two_entries:
  "init [1] [2] [3] (eye 1) (eye 1) (eye 1) = Inr one_bin_model \<and>
   expected_data one_bin_model [1, 0, 0, 0] True = Inr [3, 0] \<and>
   expected_data one_bin_model [1, 0, 0, 0] False = Inr [3]"
proof -
  have "constraint_model one_bin_model = [\<lparr> loc = [0], scale = [1], domain_start = 1 \<rparr>]"
    by (simp add: one_bin_model_def)
  then have "expected_data one_bin_model [1, 0, 0, 0] True = Inr [3, 0]"
    and "expected_data one_bin_model [1, 0, 0, 0] False = Inr [3]"
    by (simp_all add: expected_data_def main_expected_data_def lam_one_bin bind_err_def
        constraint_expected_data_def)
  with init_one_bin show ?thesis by simp
qed

subsection \<open>The constraint function\<close>

text \<open>
  C4. Whatever the model and the parameters, evaluating the constraint function raises
  \<open>NameError\<close> for the unbound name \<open>absolute_uncertainties\<close>; it returns no values.
\<close>

theorem constraint_raises_NameError:
  "constraint m pars = Inl (NameError ''absolute_uncertainties'')"
  by (simp add: constraint_def absolute_uncertainties_def bind_err_def)

subsection \<open>Objective and log-likelihood\<close>

lemma constraint_log_prob_one_bin:
  "constraint_log_prob (constraint_model one_bin_model) [1, 0, 0, 0] =
     Inr (- (3 * ln (2 * pi) / 2))"
  by (simp add: one_bin_model_def normal_log_prob_def broadcast_def bind_err_def)

lemma main_log_prob_one_bin:
  "main_log_prob gammaln_counts one_bin_model [1, 0, 0, 0] [3] = Inr (3 * ln 3 - 3 - ln 6)"
proof -
  have "fact (3::nat) = (6::real)" by (simp add: fact_numeral)
  then show ?thesis
    by (simp add: main_log_prob_def lam_one_bin bind_err_def poisson_log_prob_def
      broadcast_def gammaln_counts_def)
qed

lemma lam_two_bin: "lam two_bin_model [1, 0, 0, 0, 0, 0, 0] = Inr [25, 40]"
proof -
  have "[0..<2] = [0, Suc 0]" by (simp add: upt_conv_Cons)
  then show ?thesis
    by (simp add: lam_def bind_err_def broadcast_def array_split3_def diagonal_def eye_2
        two_bin_model_def)
qed

text \<open>
  A dataset of two entries on the model of one bin, \<open>[3, 0]\<close>, is what the expected data
  with auxiliary entries looks like. The main model, given both entries, stretches its
  single mean over them and adds the Poisson term \<open>-3\<close> of the second entry.
\<close>

lemma main_log_prob_one_bin_longer:
  "main_log_prob gammaln_counts one_bin_model [1, 0, 0, 0] [3, 0] =
     Inr (3 * ln 3 - 3 - ln 6 - 3)"
proof -
  have "fact (3::nat) = (6::real)" by (simp add: fact_numeral)
  then show ?thesis
    by (simp add: main_log_prob_def lam_one_bin bind_err_def poisson_log_prob_def
      broadcast_def gammaln_counts_def)
qed

lemma main_log_prob_two_bin_returns:
  "\<exists>a. main_log_prob gammaln_counts two_bin_model [1, 0, 0, 0, 0, 0, 0] [20, 30] = Inr a"
  by (simp add: main_log_prob_def lam_two_bin bind_err_def poisson_log_prob_def
      broadcast_def)

text \<open>
  On the model of two bins the constraint model holds two means, which six nuisance
  values cannot be broadcast against.
\<close>

lemma constraint_log_prob_two_bin:
  "constraint_log_prob (constraint_model two_bin_model) [1, 0, 0, 0, 0, 0, 0] = Inl ValueError"
  by (simp add: two_bin_model_def normal_log_prob_def broadcast_def bind_err_def)

text \<open>
  C8, as stated, fails for a dataset with more entries than the model has bins. On the
  model of one bin with the data argument \<open>[3, 0]\<close> the function returned by
  \<open>get_logpdf_func\<close> evaluates to \<open>3 ln 3 - 3 - ln 6 - 3 ln (2 pi) / 2\<close>, while the
  log-probability of the main model at that dataset plus the log-probability of the
  constraint model is smaller by 3.
\<close>

theorem logpdf_longer_dataset_counterexample:
  "get_logpdf_func gammaln_counts one_bin_model observed (Some [3, 0]) [1, 0, 0, 0] =
     Inr (3 * ln 3 - 3 - ln 6 + - (3 * ln (2 * pi) / 2)) \<and>
   main_log_prob gammaln_counts one_bin_model [1, 0, 0, 0] [3, 0] =
     Inr (3 * ln 3 - 3 - ln 6 - 3) \<and>
   constraint_log_prob (constraint_model one_bin_model) [1, 0, 0, 0] =
     Inr (- (3 * ln (2 * pi) / 2)) \<and>
   3 * ln 3 - 3 - ln 6 + - (3 * ln (2 * pi) / 2) \<noteq>
     (3 * ln 3 - 3 - ln 6 - 3) + - (3 * ln (2 * pi) / (2::real))"
proof -
  have dat: "data one_bin_model = [3]" by (simp add: one_bin_model_def)
  have "get_logpdf_func gammaln_counts one_bin_model observed (Some [3, 0]) [1, 0, 0, 0] =
     Inr (3 * ln 3 - 3 - ln 6 + - (3 * ln (2 * pi) / 2))"
    by (simp add: get_logpdf_func_def selected_data_def dat main_log_prob_one_bin
        constraint_log_prob_one_bin bind_err_def)
  then show ?thesis
    by (simp add: main_log_prob_one_bin_longer constraint_log_prob_one_bin)
qed

text \<open>
  C8, amended. Let the dataset be the data argument when one is given, and otherwise the
  background yields in the apriori mode and the stored data in the other modes; let
  \<open>first_bins\<close> be its first \<open>N\<close> entries, \<open>N\<close> being the length of the stored data. For
  every model, mode, data argument and parameter vector: when the main model returns
  the log-probability \<open>a\<close> at \<open>first_bins\<close> and the constraint model returns \<open>c\<close>, the
  function returned by \<open>get_logpdf_func\<close> evaluates to \<open>a + c\<close> and the value of the
  function returned by \<open>get_objective_function\<close> to \<open>- (a + c)\<close>; when the main model
  raises, or it returns and the constraint model raises, both functions raise the same
  exception. In every case the objective is the negation of the log-likelihood, with no
  factor of two.
\<close>

theorem logpdf_decomposition:
  assumes "dataset = (case dat of Some d \<Rightarrow> d
                      | None \<Rightarrow> if expected = apriori then background_yields m else data m)"
    and "first_bins = take (length (data m)) dataset"
  shows "(\<forall>a c. main_log_prob gammaln m pars first_bins = Inr a \<longrightarrow>
            constraint_log_prob (constraint_model m) pars = Inr c \<longrightarrow>
            get_logpdf_func gammaln m expected dat pars = Inr (a + c) \<and>
            get_objective_function gammaln m expected dat pars = Inr (- (a + c))) \<and>
         (\<forall>e. main_log_prob gammaln m pars first_bins = Inl e \<longrightarrow>
            get_logpdf_func gammaln m expected dat pars = Inl e \<and>
            get_objective_function gammaln m expected dat pars = Inl e) \<and>
         (\<forall>a e. main_log_prob gammaln m pars first_bins = Inr a \<longrightarrow>
            constraint_log_prob (constraint_model m) pars = Inl e \<longrightarrow>
            get_logpdf_func gammaln m expected dat pars = Inl e \<and>
            get_objective_function gammaln m expected dat pars = Inl e) \<and>
         get_objective_function gammaln m expected dat pars =
           map_sum id uminus (get_logpdf_func gammaln m expected dat pars)"
proof -
  have sel: "selected_data m expected dat = dataset"
    by (simp add: selected_data_def assms(1) split: option.splits)
  have logpdf: "get_logpdf_func gammaln m expected dat pars =
      bind_err (main_log_prob gammaln m pars first_bins) (\<lambda>a.
      bind_err (constraint_log_prob (constraint_model m) pars) (\<lambda>c. Inr (a + c)))"
    by (simp add: get_logpdf_func_def Let_def sel assms(2))
  have obj: "get_objective_function gammaln m expected dat pars =
      bind_err (main_log_prob gammaln m pars first_bins) (\<lambda>a.
      bind_err (constraint_log_prob (constraint_model m) pars) (\<lambda>c. Inr (- a - c)))"
    by (simp add: get_objective_function_def negative_loglikelihood_def sel assms(2))
  show ?thesis
    unfolding logpdf obj
    by (cases "main_log_prob gammaln m pars first_bins";
        cases "constraint_log_prob (constraint_model m) pars")
       (simp_all add: bind_err_def)
qed

text \<open>
  On the model of one bin at \<open>pars = [1, 0, 0, 0]\<close> and the stored data the Poisson term
  is \<open>3 ln 3 - 3 - ln 3!\<close>, the three standard-normal terms add \<open>- 3 ln (2 pi) / 2\<close>, and
  the objective is minus their sum. On the model of two bins in the apriori mode the main
  model returns at the background yields and the constraint model raises, and so do
  both functions.
\<close>

theorem logpdf_decomposition_witness:
  "get_logpdf_func gammaln_counts one_bin_model observed None [1, 0, 0, 0] =
     Inr (3 * ln 3 - 3 - ln 6 + - (3 * ln (2 * pi) / 2)) \<and>
   get_objective_function gammaln_counts one_bin_model observed None [1, 0, 0, 0] =
     Inr (- (3 * ln 3 - 3 - ln 6 + - (3 * ln (2 * pi) / 2))) \<and>
   get_logpdf_func gammaln_counts two_bin_model apriori None [1, 0, 0, 0, 0, 0, 0] =
     Inl ValueError \<and>
   get_objective_function gammaln_counts two_bin_model apriori None [1, 0, 0, 0, 0, 0, 0] =
     Inl ValueError"
proof -
  have d1: "[3] = (case None of Some d \<Rightarrow> d
                   | None \<Rightarrow> if observed = apriori then background_yields one_bin_model
                             else data one_bin_model)"
    and c1: "[3] = take (length (data one_bin_model)) [3 :: real]"
    by (simp_all add: one_bin_model_def)
  have d2: "[20, 30] = (case None of Some d \<Rightarrow> d
                   | None \<Rightarrow> if apriori = apriori then background_yields two_bin_model
                             else data two_bin_model)"
    and c2: "[20, 30] = take (length (data two_bin_model)) [20, 30 :: real]"
    by (simp_all add: two_bin_model_def)
  from main_log_prob_two_bin_returns obtain a
    where a: "main_log_prob gammaln_counts two_bin_model [1, 0, 0, 0, 0, 0, 0] [20, 30] = Inr a"
    by blast
  from logpdf_decomposition [OF d1 c1, of gammaln_counts "[1, 0, 0, 0]"]
    main_log_prob_one_bin constraint_log_prob_one_bin
  have one: "get_logpdf_func gammaln_counts one_bin_model observed None [1, 0, 0, 0] =
       Inr (3 * ln 3 - 3 - ln 6 + - (3 * ln (2 * pi) / 2)) \<and>
     get_objective_function gammaln_counts one_bin_model observed None [1, 0, 0, 0] =
       Inr (- (3 * ln 3 - 3 - ln 6 + - (3 * ln (2 * pi) / 2)))"
    by blast
  from logpdf_decomposition [OF d2 c2, of gammaln_counts "[1, 0, 0, 0, 0, 0, 0]"]
    a constraint_log_prob_two_bin
  have two: "get_logpdf_func gammaln_counts two_bin_model apriori None [1, 0, 0, 0, 0, 0, 0] =
       Inl ValueError \<and>
     get_objective_function gammaln_counts two_bin_model apriori None [1, 0, 0, 0, 0, 0, 0] =
       Inl ValueError"
    by blast
  from one two show ?thesis by blast
qed

text \<open>
  C9. Without a data argument both builders return the function they return for the
  stored data in the observed and aposteriori modes and for the background yields in
  the apriori mode; with a data argument \<open>d\<close> they use \<open>d\<close> in every mode.
\<close>

theorem dataset_selection:
  "get_logpdf_func gammaln m observed None =
     get_logpdf_func gammaln m observed (Some (data m)) \<and>
   get_logpdf_func gammaln m aposteriori None =
     get_logpdf_func gammaln m aposteriori (Some (data m)) \<and>
   get_logpdf_func gammaln m apriori None =
     get_logpdf_func gammaln m apriori (Some (background_yields m)) \<and>
   get_objective_function gammaln m observed None =
     get_objective_function gammaln m observed (Some (data m)) \<and>
   get_objective_function gammaln m aposteriori None =
     get_objective_function gammaln m aposteriori (Some (data m)) \<and>
   get_objective_function gammaln m apriori None =
     get_objective_function gammaln m apriori (Some (background_yields m)) \<and>
   selected_data m expected (Some d) = d \<and>
   get_logpdf_func gammaln m expected (Some d) pars =
     bind_err (main_log_prob gammaln m pars (take (length (data m)) d)) (\<lambda>a.
     bind_err (constraint_log_prob (constraint_model m) pars) (\<lambda>c. Inr (a + c))) \<and>
   get_objective_function gammaln m expected (Some d) pars =
     bind_err (main_log_prob gammaln m pars (take (length (data m)) d)) (\<lambda>a.
     bind_err (constraint_log_prob (constraint_model m) pars) (\<lambda>c. Inr (- a - c)))"
  by (simp add: get_logpdf_func_def get_objective_function_def negative_loglikelihood_def
      selected_data_def Let_def)

text \<open>
  C10. Two data arguments that both have at least as many entries as the model has
  bins and agree on the first \<open>N\<close> of them give the same log-likelihood and the same
  objective, in every mode and at every parameter vector: a longer argument is cut to
  its first \<open>N\<close> entries, never refused.
\<close>

theorem only_first_bins_of_data_matter:
  assumes "length (data m) \<le> length d1" and "length (data m) \<le> length d2"
    and "\<forall>i < length (data m). d1 ! i = d2 ! i"
  shows "get_logpdf_func gammaln m expected (Some d1) pars =
           get_logpdf_func gammaln m expected (Some d2) pars \<and>
         get_objective_function gammaln m expected (Some d1) pars =
           get_objective_function gammaln m expected (Some d2) pars \<and>
         get_logpdf_func gammaln m expected (Some d1) pars =
           get_logpdf_func gammaln m expected (Some (take (length (data m)) d1)) pars"
proof -
  have "take (length (data m)) d1 = take (length (data m)) d2"
    using assms by (intro nth_equalityI) simp_all
  then show ?thesis
    by (simp add: get_logpdf_func_def get_objective_function_def negative_loglikelihood_def
        selected_data_def Let_def)
qed

theorem only_first_bins_of_data_matter_witness:
  "length (data one_bin_model) \<le> length [3, 7 :: real] \<and>
   length (data one_bin_model) \<le> length [3, 9 :: real] \<and>
   [3, 7 :: real] ! 0 = [3, 9 :: real] ! 0 \<and>
   get_logpdf_func gammaln_counts one_bin_model observed (Some [3, 7]) [1, 0, 0, 0] =
     get_logpdf_func gammaln_counts one_bin_model observed (Some [3, 9]) [1, 0, 0, 0] \<and>
   get_objective_function gammaln_counts one_bin_model observed (Some [3, 7]) [1, 0, 0, 0] =
     get_objective_function gammaln_counts one_bin_model observed (Some [3, 9]) [1, 0, 0, 0]"
proof -
  have dat: "data one_bin_model = [3]" by (simp add: one_bin_model_def)
  have h1: "length (data one_bin_model) \<le> length [3, 7 :: real]"
    and h2: "length (data one_bin_model) \<le> length [3, 9 :: real]"
    and h3: "\<forall>i < length (data one_bin_model). [3, 7 :: real] ! i = [3, 9 :: real] ! i"
    by (simp_all add: dat)
  from only_first_bins_of_data_matter [OF h1 h2 h3] h1 h2
  show ?thesis by simp
qed

end
